theory Spec2Isabelle
  imports Main "HOL-Library.Sublist"
begin

section \<open>Legacy tensor type names: \<open>torch/csrc/utils/tensor_types.cpp\<close>\<close>

text \<open>
  The file converts between a tensor type, the pair of a backend and a scalar type, and
  its legacy name such as \<open>torch.cuda.FloatTensor\<close>, and lists the declared types.
  It is one translation unit of a large framework: the enumerations, the type objects,
  the per-family enumerators and the default configuration live in headers that are not
  part of the unit. They are modelled below as data types and as the fields of a record
  \<open>framework\<close> that every function takes, so that each theorem says which property
  of the surrounding framework it relies on.
\<close>

subsection \<open>Data model\<close>

text \<open>
  Modelled from the spec: \<open>at::Backend\<close>, whose declaration is not in the unit. The
  eight enumerators that \<open>backend_to_string\<close> names are constructors of their own;
  the other enumerators of the closed set are \<open>OtherBackend n\<close>, numbered by
  \<open>n\<close>.
\<close>

datatype Backend =
    CPU | CUDA | XPU | SparseCPU | SparseCUDA | SparseXPU | QuantizedCPU | HPU
  | OtherBackend nat

text \<open>
  Modelled from the spec: \<open>at::ScalarType\<close>, whose declaration is not in the unit:
  the element types the spec lists, complex-half and the quantized integers it
  mentions as left out of the enumeration, and the undefined type. \<open>Char_t\<close> and
  \<open>Int_t\<close> are the enumerators \<open>Char\<close> and \<open>Int\<close>.
\<close>

datatype ScalarType =
    Byte | Char_t | Short | Int_t | Long | Half | Float | Double
  | ComplexHalf | ComplexFloat | ComplexDouble | Bool
  | QInt8 | QUInt8 | QInt32 | BFloat16 | Undefined

text \<open>
  Modelled from the spec: \<open>caffe2::TypeMeta\<close> and \<open>at::typeMetaToScalarType\<close>. The
  \<open>dtype\<close> of an options bundle is the type descriptor of a scalar type, and the
  conversion reads the scalar type back.
\<close>

datatype TypeMeta = TypeMeta ScalarType

fun typeMetaToScalarType :: "TypeMeta \<Rightarrow> ScalarType" where
  "typeMetaToScalarType (TypeMeta s) = s"

text \<open>
  Modelled from the spec: \<open>at::TensorOptions\<close>, a bundle that exposes a backend and a
  dtype, and \<open>at::DeprecatedTypeProperties\<close>, the type object of a pair of a backend
  and a scalar type. The unit handles type objects through pointers into the
  framework's registry, which holds one immutable object per pair; the model handles
  the objects themselves.
\<close>

record TensorOptions =
  backend :: Backend
  dtype :: TypeMeta

record DeprecatedTypeProperties =
  type_backend :: Backend
  scalarType :: ScalarType

text \<open>
  Modelled from the spec: \<open>DeprecatedTypeProperties::options()\<close>, the options that
  construct a tensor of the type, and \<open>at::getDeprecatedTypeProperties\<close>, the
  registry's object for a pair.
\<close>

definition options :: "DeprecatedTypeProperties \<Rightarrow> TensorOptions" where
  "options t = \<lparr>backend = type_backend t, dtype = TypeMeta (scalarType t)\<rparr>"

definition getDeprecatedTypeProperties :: "Backend \<Rightarrow> ScalarType \<Rightarrow> DeprecatedTypeProperties" where
  "getDeprecatedTypeProperties b s = \<lparr>type_backend = b, scalarType = s\<rparr>"

text \<open>
  Modelled from the spec: a dispatch key, a framework-internal identifier convertible
  to a backend.
\<close>

datatype DispatchKey = DispatchKey nat

text \<open>
  The functions of the framework that the unit calls and does not define:
  \<open>c10::toString\<close> on scalar types, the stream output of a backend (used in the
  message of \<open>AT_ERROR\<close>), the enumerators
  \<open>autograd::VariableType::allCPUTypes\<close> and \<open>allCUDATypes\<close>, and
  \<open>dispatchKeyToBackend\<close>.
\<close>

record framework =
  toString :: "ScalarType \<Rightarrow> string"
  backend_name :: "Backend \<Rightarrow> string"
  allCPUTypes :: "DeprecatedTypeProperties list"
  allCUDATypes :: "DeprecatedTypeProperties list"
  dispatchKeyToBackend :: "DispatchKey \<Rightarrow> Backend"

text \<open>
  The default configuration, read through
  \<open>torch::tensors::get_default_dispatch_key\<close> and \<open>get_default_scalar_type\<close>.
\<close>

record DefaultTypeConfig =
  default_dispatch_key :: DispatchKey
  default_scalar_type :: ScalarType

text \<open>
  The two exceptions of the unit: \<open>c10::Error\<close>, thrown by \<open>AT_ERROR\<close>, and
  \<open>torch::ValueError\<close>, each with its message.
\<close>

datatype error = Error string | ValueError string

subsection \<open>Formatting\<close>

fun backend_to_string :: "framework \<Rightarrow> Backend \<Rightarrow> error + string" where
  "backend_to_string fw CPU = Inr ''torch''"
| "backend_to_string fw CUDA = Inr ''torch.cuda''"
| "backend_to_string fw XPU = Inr ''torch.xpu''"
| "backend_to_string fw SparseCPU = Inr ''torch.sparse''"
| "backend_to_string fw SparseCUDA = Inr ''torch.cuda.sparse''"
| "backend_to_string fw SparseXPU = Inr ''torch.xpu.sparse''"
| "backend_to_string fw QuantizedCPU = Inr ''torch.quantized''"
| "backend_to_string fw HPU = Inr ''torch.hpu''"
| "backend_to_string fw (OtherBackend n) =
     Inl (Error (''Unimplemented backend '' @ backend_name fw (OtherBackend n)))"

definition options_to_string :: "framework \<Rightarrow> TensorOptions \<Rightarrow> error + string" where
  "options_to_string fw opts =
     (case backend_to_string fw (backend opts) of
        Inl e \<Rightarrow> Inl e
      | Inr ns \<Rightarrow> Inr (ns @ ''.'' @ toString fw (typeMetaToScalarType (dtype opts)) @ ''Tensor''))"

definition type_to_string :: "framework \<Rightarrow> DeprecatedTypeProperties \<Rightarrow> error + string" where
  "type_to_string fw t =
     (case backend_to_string fw (type_backend t) of
        Inl e \<Rightarrow> Inl e
      | Inr ns \<Rightarrow> Inr (ns @ ''.'' @ toString fw (scalarType t) @ ''Tensor''))"

text \<open>
  The namespace table as the specification words it, to compare the formatter with.
\<close>

definition backend_namespace_table :: "(Backend \<times> string) list" where
  "backend_namespace_table =
     [(CPU, ''torch''), (CUDA, ''torch.cuda''), (XPU, ''torch.xpu''),
      (SparseCPU, ''torch.sparse''), (SparseCUDA, ''torch.cuda.sparse''),
      (SparseXPU, ''torch.xpu.sparse''), (QuantizedCPU, ''torch.quantized''),
      (HPU, ''torch.hpu'')]"

text \<open>
  An instance of the framework for concrete runs. Modelled from the spec: the name of
  a scalar type is the fixed text of its enumerator (\<open>Float\<close>, \<open>Double\<close>,
  \<open>Long\<close>), and an enumerator lists every type object of its family.
\<close>

fun scalar_type_name :: "ScalarType \<Rightarrow> string" where
  "scalar_type_name Byte = ''Byte''"
| "scalar_type_name Char_t = ''Char''"
| "scalar_type_name Short = ''Short''"
| "scalar_type_name Int_t = ''Int''"
| "scalar_type_name Long = ''Long''"
| "scalar_type_name Half = ''Half''"
| "scalar_type_name Float = ''Float''"
| "scalar_type_name Double = ''Double''"
| "scalar_type_name ComplexHalf = ''ComplexHalf''"
| "scalar_type_name ComplexFloat = ''ComplexFloat''"
| "scalar_type_name ComplexDouble = ''ComplexDouble''"
| "scalar_type_name Bool = ''Bool''"
| "scalar_type_name QInt8 = ''QInt8''"
| "scalar_type_name QUInt8 = ''QUInt8''"
| "scalar_type_name QInt32 = ''QInt32''"
| "scalar_type_name BFloat16 = ''BFloat16''"
| "scalar_type_name Undefined = ''UNKNOWN_SCALAR''"

definition all_scalar_types :: "ScalarType list" where
  "all_scalar_types =
     [Byte, Char_t, Short, Int_t, Long, Half, Float, Double, ComplexHalf, ComplexFloat,
      ComplexDouble, Bool, QInt8, QUInt8, QInt32, BFloat16, Undefined]"

fun example_backend_name :: "Backend \<Rightarrow> string" where
  "example_backend_name CPU = ''CPU''"
| "example_backend_name CUDA = ''CUDA''"
| "example_backend_name XPU = ''XPU''"
| "example_backend_name SparseCPU = ''SparseCPU''"
| "example_backend_name SparseCUDA = ''SparseCUDA''"
| "example_backend_name SparseXPU = ''SparseXPU''"
| "example_backend_name QuantizedCPU = ''QuantizedCPU''"
| "example_backend_name HPU = ''HPU''"
| "example_backend_name (OtherBackend n) = (if n = 0 then ''HIP'' else ''UNKNOWN_BACKEND'')"

definition allTypesForBackends :: "Backend list \<Rightarrow> DeprecatedTypeProperties list" where
  "allTypesForBackends bs =
     concat (map (\<lambda>b. map (getDeprecatedTypeProperties b) all_scalar_types) bs)"

definition example_framework :: framework where
  "example_framework =
     \<lparr>toString = scalar_type_name,
      backend_name = example_backend_name,
      allCPUTypes = allTypesForBackends [CPU, SparseCPU],
      allCUDATypes = allTypesForBackends [CUDA, SparseCUDA],
      dispatchKeyToBackend =
        (\<lambda>k. case k of DispatchKey n \<Rightarrow> if n = 1 then CUDA else if n = 2 then XPU else CPU)\<rparr>"

subsection \<open>Resolving a name\<close>

text \<open>
  The function-local statics of \<open>options_from_string\<close>: the two once-flags and the
  two maps from a name to a type object. A \<open>std::unordered_map\<close> with string keys is
  a partial function on strings.
\<close>

type_synonym type_map = "string \<rightharpoonup> DeprecatedTypeProperties"

record statics =
  cpu_once :: bool
  cuda_once :: bool
  cpu_map :: type_map
  cuda_map :: type_map

definition initial_statics :: statics where
  "initial_statics =
     \<lparr>cpu_once = False, cuda_once = False, cpu_map = Map.empty, cuda_map = Map.empty\<rparr>"

definition cuda_prefix :: string where
  "cuda_prefix = ''torch.cuda.''"

text \<open>
  \<open>std::mismatch(first1, last1, first2)\<close>, returning what is left of the first range
  at the first position where the two differ: the empty list is \<open>last1\<close>. When
  \<open>str\<close> ends before the prefix does, the comparison reads the terminating NUL of the
  \<open>std::string\<close>, which no character of the prefix equals, and stops there.
\<close>

fun mismatch_first :: "string \<Rightarrow> string \<Rightarrow> string" where
  "mismatch_first [] ys = []"
| "mismatch_first (x # xs) [] = x # xs"
| "mismatch_first (x # xs) (y # ys) = (if x = y then mismatch_first xs ys else x # xs)"

text \<open>\<open>unordered_map::emplace\<close> inserts only when the key is absent.\<close>

definition emplace :: "type_map \<Rightarrow> string \<Rightarrow> DeprecatedTypeProperties \<Rightarrow> type_map" where
  "emplace m k v = (case m k of None \<Rightarrow> m(k \<mapsto> v) | Some _ \<Rightarrow> m)"

text \<open>
  The loop of the callable passed to \<open>std::call_once\<close>. When \<open>type_to_string\<close> throws,
  the loop is left with the error and the entries inserted so far stay in the map.
\<close>

fun emplace_types :: "framework \<Rightarrow> DeprecatedTypeProperties list \<Rightarrow> type_map \<Rightarrow> error option \<times> type_map" where
  "emplace_types fw [] m = (None, m)"
| "emplace_types fw (t # ts) m =
     (case type_to_string fw t of
        Inl e \<Rightarrow> (Some e, m)
      | Inr name \<Rightarrow> emplace_types fw ts (emplace m name t))"

text \<open>
  \<open>std::call_once\<close> in a single thread: a set flag skips the callable; a callable that
  returns sets the flag; a callable that throws leaves the flag unset and passes the
  exception on.
\<close>

definition call_once_cuda :: "framework \<Rightarrow> statics \<Rightarrow> error option \<times> statics" where
  "call_once_cuda fw st =
     (if cuda_once st then (None, st)
      else (case emplace_types fw (allCUDATypes fw) (cuda_map st) of
              (None, m) \<Rightarrow> (None, st\<lparr>cuda_once := True, cuda_map := m\<rparr>)
            | (Some e, m) \<Rightarrow> (Some e, st\<lparr>cuda_map := m\<rparr>)))"

definition call_once_cpu :: "framework \<Rightarrow> statics \<Rightarrow> error option \<times> statics" where
  "call_once_cpu fw st =
     (if cpu_once st then (None, st)
      else (case emplace_types fw (allCPUTypes fw) (cpu_map st) of
              (None, m) \<Rightarrow> (None, st\<lparr>cpu_once := True, cpu_map := m\<rparr>)
            | (Some e, m) \<Rightarrow> (Some e, st\<lparr>cpu_map := m\<rparr>)))"

text \<open>
  \<open>std::string::c_str\<close> as \<open>%s\<close> reads it: the characters before the first NUL.
\<close>

definition c_str :: "string \<Rightarrow> string" where
  "c_str s = takeWhile (\<lambda>c. c \<noteq> CHR 0x00) s"

text \<open>
  Modelled from the spec: the message that \<open>torch::ValueError\<close> formats from
  \<open>invalid type: '%s'\<close> and the C string, the text with the string between the two
  quote characters.
\<close>

definition invalid_type_message :: "string \<Rightarrow> string" where
  "invalid_type_message s = ''invalid type: '' @ [CHR 0x27] @ s @ [CHR 0x27]"

text \<open>
  \<open>options_from_string\<close>. The result is the returned options or the exception, with
  the statics as the call leaves them.
\<close>

definition options_from_string ::
  "framework \<Rightarrow> DefaultTypeConfig \<Rightarrow> statics \<Rightarrow> string \<Rightarrow> (error + TensorOptions) \<times> statics" where
  "options_from_string fw cfg st str =
     (if str = ''torch.Tensor'' then
        (let backend = dispatchKeyToBackend fw (default_dispatch_key cfg);
             scalar_type = default_scalar_type cfg
         in (Inr (options (getDeprecatedTypeProperties backend scalar_type)), st))
      else
        (let (err, st', map) =
           (if mismatch_first cuda_prefix str = [] then
              (case call_once_cuda fw st of (err, st') \<Rightarrow> (err, st', cuda_map st'))
            else
              (case call_once_cpu fw st of (err, st') \<Rightarrow> (err, st', cpu_map st')))
         in (case err of
               Some e \<Rightarrow> (Inl e, st')
             | None \<Rightarrow>
                 (case map str of
                    None \<Rightarrow> (Inl (ValueError (invalid_type_message (c_str str))), st')
                  | Some t \<Rightarrow> (Inr (options t), st')))))"

subsection \<open>The registries and the states of a run\<close>

text \<open>
  The registry of a family as the specification describes it: every type of the
  family's enumerator under the name the formatter gives it, the first type of a name
  winning. \<open>named_types\<close> lists the entries in the order of the enumerator and, like
  the loop, stops at a type the formatter rejects.
\<close>

fun named_types :: "framework \<Rightarrow> DeprecatedTypeProperties list \<Rightarrow> (string \<times> DeprecatedTypeProperties) list" where
  "named_types fw [] = []"
| "named_types fw (t # ts) =
     (case type_to_string fw t of
        Inl e \<Rightarrow> []
      | Inr name \<Rightarrow> (name, t) # named_types fw ts)"

definition family_registry :: "framework \<Rightarrow> DeprecatedTypeProperties list \<Rightarrow> type_map" where
  "family_registry fw ts = map_of (named_types fw ts)"

text \<open>The lookup that ends \<open>options_from_string\<close>, on a map that is given.\<close>

definition find_or_throw :: "type_map \<Rightarrow> string \<Rightarrow> error + TensorOptions" where
  "find_or_throw m str =
     (case m str of
        None \<Rightarrow> Inl (ValueError (invalid_type_message (c_str str)))
      | Some t \<Rightarrow> Inr (options t))"

text \<open>
  The family of a name and the resolver as the specification words them: a name belongs
  to the CUDA family when it starts with \<open>torch.cuda.\<close> and to the CPU family
  otherwise; the resolver builds the registry of the family on first use and looks the
  name up there.
\<close>

datatype family = CPU_family | CUDA_family

definition resolve_in_family ::
  "framework \<Rightarrow> family \<Rightarrow> statics \<Rightarrow> string \<Rightarrow> (error + TensorOptions) \<times> statics" where
  "resolve_in_family fw fam st str =
     (case fam of
        CUDA_family \<Rightarrow>
          (case call_once_cuda fw st of
             (Some e, st') \<Rightarrow> (Inl e, st')
           | (None, st') \<Rightarrow> (find_or_throw (cuda_map st') str, st'))
      | CPU_family \<Rightarrow>
          (case call_once_cpu fw st of
             (Some e, st') \<Rightarrow> (Inl e, st')
           | (None, st') \<Rightarrow> (find_or_throw (cpu_map st') str, st')))"

definition selected_types :: "framework \<Rightarrow> string \<Rightarrow> DeprecatedTypeProperties list" where
  "selected_types fw str = (if prefix cuda_prefix str then allCUDATypes fw else allCPUTypes fw)"

text \<open>
  What the theorems on the resolver ask of the framework: the name of a scalar type is
  not empty and has no dot, different scalar types have different names, the CPU
  enumerator lists types of the backends that the formatter supports outside the CUDA
  namespace, and the CUDA enumerator lists types of CUDA and SparseCUDA.
\<close>

definition wellformed_framework :: "framework \<Rightarrow> bool" where
  "wellformed_framework fw \<longleftrightarrow>
     (\<forall>s. toString fw s \<noteq> [] \<and> CHR ''.'' \<notin> set (toString fw s))
     \<and> inj (toString fw)
     \<and> (\<forall>t \<in> set (allCPUTypes fw).
           type_backend t \<in> {CPU, XPU, SparseCPU, SparseXPU, QuantizedCPU, HPU})
     \<and> (\<forall>t \<in> set (allCUDATypes fw). type_backend t \<in> {CUDA, SparseCUDA})"

text \<open>
  The statics between two calls: a family that has not been built has an empty map, a
  family that has been built holds its registry. The invariant holds at the start of
  the process and every call keeps it (\<open>statics_inv_initial\<close>,
  \<open>statics_inv_preserved\<close>).
\<close>

definition statics_inv :: "framework \<Rightarrow> statics \<Rightarrow> bool" where
  "statics_inv fw st \<longleftrightarrow>
     cpu_map st = (if cpu_once st then family_registry fw (allCPUTypes fw) else Map.empty)
     \<and> cuda_map st = (if cuda_once st then family_registry fw (allCUDATypes fw) else Map.empty)"

definition example_config :: DefaultTypeConfig where
  "example_config = \<lparr>default_dispatch_key = DispatchKey 0, default_scalar_type = Float\<rparr>"

text \<open>A \<open>std::string\<close> with a NUL character in it.\<close>

definition name_with_nul :: string where
  "name_with_nul = ''torch.FloatTensor'' @ [CHR 0x00] @ ''junk''"

subsection \<open>The declared types\<close>

text \<open>
  The inner and the outer loop of \<open>all_declared_types\<close>, with \<open>ret\<close> as accumulator.
  The list of scalar types comes from the macro
  \<open>AT_FORALL_SCALAR_TYPES_WITH_COMPLEX_EXCEPT_COMPLEX_HALF\<close>, which the unit does not
  define: it is the argument \<open>scalar_types\<close>.
\<close>

fun scalar_type_loop ::
  "Backend \<Rightarrow> ScalarType list \<Rightarrow> (Backend \<times> ScalarType) list \<Rightarrow> (Backend \<times> ScalarType) list" where
  "scalar_type_loop b [] ret = ret"
| "scalar_type_loop b (scalar_type # rest) ret =
     (if scalar_type = Bool \<and> (b = SparseCUDA \<or> b = SparseCPU)
      then scalar_type_loop b rest ret
      else scalar_type_loop b rest (ret @ [(b, scalar_type)]))"

fun backend_loop ::
  "Backend list \<Rightarrow> ScalarType list \<Rightarrow> (Backend \<times> ScalarType) list \<Rightarrow> (Backend \<times> ScalarType) list" where
  "backend_loop [] scalar_types ret = ret"
| "backend_loop (b # rest) scalar_types ret =
     backend_loop rest scalar_types (scalar_type_loop b scalar_types ret)"

definition all_declared_types :: "ScalarType list \<Rightarrow> (Backend \<times> ScalarType) list" where
  "all_declared_types scalar_types =
     backend_loop [CPU, CUDA, SparseCPU, SparseCUDA] scalar_types []"

text \<open>
  Modelled from the spec: the list that the macro expands to, all scalar types with
  complex except complex-half, none of them quantized.
\<close>

definition scalar_types_with_complex_except_complex_half :: "ScalarType list" where
  "scalar_types_with_complex_except_complex_half =
     [Byte, Char_t, Short, Int_t, Long, Half, Float, Double, ComplexFloat, ComplexDouble,
      Bool, BFloat16]"

text \<open>
  The enumeration as the specification words it: the backends in their fixed order,
  for each the scalar types in list order, without the pairs of the exclusion rule.
\<close>

definition excluded_pair :: "Backend \<Rightarrow> ScalarType \<Rightarrow> bool" where
  "excluded_pair b s = ((b, s) = (SparseCPU, Bool) \<or> (b, s) = (SparseCUDA, Bool))"

definition declared_types_spec :: "ScalarType list \<Rightarrow> (Backend \<times> ScalarType) list" where
  "declared_types_spec scalar_types =
     concat (map (\<lambda>b. map (Pair b) (filter (\<lambda>s. \<not> excluded_pair b s) scalar_types))
                 [CPU, CUDA, SparseCPU, SparseCUDA])"

section \<open>The two formatters\<close>

lemma example_framework_fields [simp]:
  "toString example_framework = scalar_type_name"
  "backend_name example_framework = example_backend_name"
  "allCPUTypes example_framework = allTypesForBackends [CPU, SparseCPU]"
  "allCUDATypes example_framework = allTypesForBackends [CUDA, SparseCUDA]"
  "dispatchKeyToBackend example_framework (DispatchKey n) =
     (if n = 1 then CUDA else if n = 2 then XPU else CPU)"
  by (simp_all add: example_framework_def)

text \<open>
  C9: the two formatting entry points agree. For every backend and every scalar type,
  \<open>options_to_string\<close> on an options bundle with that backend and dtype gives the
  result that \<open>type_to_string\<close> gives on the type object of that backend and scalar
  type: the same string, or the same error.
\<close>

theorem formatters_agree:
  "options_to_string fw \<lparr>backend = b, dtype = TypeMeta s\<rparr> =
   type_to_string fw \<lparr>type_backend = b, scalarType = s\<rparr>"
  by (simp add: options_to_string_def type_to_string_def split: sum.split)

text \<open>
  C2: for each of the eight supported backends and every scalar type, both formatters
  return the namespace that the table of the specification gives the backend, a dot,
  the name of the scalar type and \<open>Tensor\<close>.
\<close>

theorem formatter_supported_backend:
  assumes "b \<in> {CPU, CUDA, XPU, SparseCPU, SparseCUDA, SparseXPU, QuantizedCPU, HPU}"
  shows "\<exists>ns. map_of backend_namespace_table b = Some ns
           \<and> options_to_string fw \<lparr>backend = b, dtype = TypeMeta s\<rparr>
               = Inr (ns @ ''.'' @ toString fw s @ ''Tensor'')
           \<and> type_to_string fw \<lparr>type_backend = b, scalarType = s\<rparr>
               = Inr (ns @ ''.'' @ toString fw s @ ''Tensor'')"
  using assms
  by (auto simp add: backend_namespace_table_def options_to_string_def type_to_string_def)

theorem formatter_supported_backend_witness:
  "CPU \<in> {CPU, CUDA, XPU, SparseCPU, SparseCUDA, SparseXPU, QuantizedCPU, HPU}
   \<and> options_to_string example_framework \<lparr>backend = CPU, dtype = TypeMeta Float\<rparr>
       = Inr ''torch.FloatTensor''
   \<and> type_to_string example_framework \<lparr>type_backend = CPU, scalarType = Float\<rparr>
       = Inr ''torch.FloatTensor''"
  using formatter_supported_backend [of CPU example_framework Float]
  by (simp add: backend_namespace_table_def)

text \<open>
  C7: for every backend outside the eight supported ones, the formatter fails with the
  error of \<open>AT_ERROR\<close>, whose message is \<open>Unimplemented backend\<close> followed by the
  backend as the framework prints it, and returns no string; this holds for
  \<open>backend_to_string\<close> and for both entry points built on it.
\<close>

theorem formatter_unsupported_backend:
  assumes "b \<notin> {CPU, CUDA, XPU, SparseCPU, SparseCUDA, SparseXPU, QuantizedCPU, HPU}"
  shows "backend_to_string fw b = Inl (Error (''Unimplemented backend '' @ backend_name fw b))
       \<and> options_to_string fw \<lparr>backend = b, dtype = TypeMeta s\<rparr>
           = Inl (Error (''Unimplemented backend '' @ backend_name fw b))
       \<and> type_to_string fw \<lparr>type_backend = b, scalarType = s\<rparr>
           = Inl (Error (''Unimplemented backend '' @ backend_name fw b))"
  using assms
  by (cases b) (simp_all add: options_to_string_def type_to_string_def)

theorem formatter_unsupported_backend_witness:
  "OtherBackend 0 \<notin> {CPU, CUDA, XPU, SparseCPU, SparseCUDA, SparseXPU, QuantizedCPU, HPU}
   \<and> backend_to_string example_framework (OtherBackend 0) = Inl (Error ''Unimplemented backend HIP'')
   \<and> options_to_string example_framework \<lparr>backend = OtherBackend 0, dtype = TypeMeta Float\<rparr>
       = Inl (Error ''Unimplemented backend HIP'')
   \<and> type_to_string example_framework \<lparr>type_backend = OtherBackend 0, scalarType = Float\<rparr>
       = Inl (Error ''Unimplemented backend HIP'')"
  using formatter_unsupported_backend [of "OtherBackend 0" example_framework Float]
  by simp

section \<open>The declared types\<close>

lemma excluded_pair_iff:
  "excluded_pair b s \<longleftrightarrow> s = Bool \<and> (b = SparseCUDA \<or> b = SparseCPU)"
  unfolding excluded_pair_def by blast

lemma scalar_type_loop_eq:
  "scalar_type_loop b sts ret = ret @ map (Pair b) (filter (\<lambda>s. \<not> excluded_pair b s) sts)"
proof (induction sts arbitrary: ret)
  case Nil
  show ?case by simp
next
  case (Cons s sts)
  show ?case
  proof (cases "excluded_pair b s")
    case True
    then have "s = Bool \<and> (b = SparseCUDA \<or> b = SparseCPU)"
      unfolding excluded_pair_iff .
    then have "scalar_type_loop b (s # sts) ret = scalar_type_loop b sts ret"
      by auto
    with True Cons.IH [of ret] show ?thesis by simp
  next
    case False
    then have "\<not> (s = Bool \<and> (b = SparseCUDA \<or> b = SparseCPU))"
      unfolding excluded_pair_iff .
    then have "scalar_type_loop b (s # sts) ret = scalar_type_loop b sts (ret @ [(b, s)])"
      by auto
    with False Cons.IH [of "ret @ [(b, s)]"] show ?thesis by simp
  qed
qed

lemma backend_loop_eq:
  "backend_loop bs sts ret =
   ret @ concat (map (\<lambda>b. map (Pair b) (filter (\<lambda>s. \<not> excluded_pair b s) sts)) bs)"
  by (induction bs arbitrary: ret) (simp_all add: scalar_type_loop_eq)

lemma all_declared_types_refines: "all_declared_types sts = declared_types_spec sts"
  by (simp add: all_declared_types_def declared_types_spec_def backend_loop_eq)

lemma filter_not_Bool_id: "Bool \<notin> set sts \<Longrightarrow> filter (\<lambda>s. s \<noteq> Bool) sts = sts"
  by (induction sts) auto

lemma length_filter_not_Bool:
  "distinct sts \<Longrightarrow> Bool \<in> set sts \<Longrightarrow> Suc (length (filter (\<lambda>s. s \<noteq> Bool) sts)) = length sts"
proof (induction sts)
  case Nil
  then show ?case by simp
next
  case (Cons a sts)
  show ?case
  proof (cases "a = Bool")
    case True
    with Cons.prems have "Bool \<notin> set sts" by simp
    then have "filter (\<lambda>s. s \<noteq> Bool) sts = sts" by (rule filter_not_Bool_id)
    then have "filter (\<lambda>s. s \<noteq> Bool) (Bool # sts) = sts" by simp
    with True show ?thesis by simp
  next
    case False
    with Cons.prems have "distinct sts" "Bool \<in> set sts" by auto
    then have "Suc (length (filter (\<lambda>s. s \<noteq> Bool) sts)) = length sts" by (rule Cons.IH)
    moreover from False
    have "filter (\<lambda>s. s \<noteq> Bool) (a # sts) = a # filter (\<lambda>s. s \<noteq> Bool) sts"
      by simp
    ultimately show ?thesis by (simp only: list.size length_Cons)
  qed
qed

lemma length_declared_types_spec:
  assumes "distinct sts" "Bool \<in> set sts"
  shows "length (declared_types_spec sts) = 4 * length sts - 2"
proof -
  have "length (declared_types_spec sts)
          = 2 * length sts + 2 * length (filter (\<lambda>s. s \<noteq> Bool) sts)"
    by (simp add: declared_types_spec_def excluded_pair_def)
  with length_filter_not_Bool [OF assms] show ?thesis by arith
qed

lemma excluded_not_declared:
  "excluded_pair b s \<Longrightarrow> (b, s) \<notin> set (declared_types_spec sts)"
  by (auto simp add: declared_types_spec_def)

text \<open>
  C4: \<open>all_declared_types\<close> returns the sequence of the specification: the backends
  CPU, CUDA, SparseCPU, SparseCUDA in this order, for each the scalar types of the
  list in list order, without (SparseCPU, Bool) and (SparseCUDA, Bool). Neither pair
  is in the result, and when the list of scalar types names each type once and Bool
  among them, the result has four times the length of the list minus two entries. The
  result is a function of the list alone, so every call returns the same sequence.
\<close>

theorem all_declared_types_enumeration:
  "all_declared_types sts = declared_types_spec sts
   \<and> (SparseCPU, Bool) \<notin> set (all_declared_types sts)
   \<and> (SparseCUDA, Bool) \<notin> set (all_declared_types sts)
   \<and> (distinct sts \<and> Bool \<in> set sts \<longrightarrow> length (all_declared_types sts) = 4 * length sts - 2)"
proof -
  have "excluded_pair SparseCPU Bool"
    by (simp add: excluded_pair_def)
  then have cpu: "(SparseCPU, Bool) \<notin> set (declared_types_spec sts)"
    by (rule excluded_not_declared)
  have "excluded_pair SparseCUDA Bool"
    by (simp add: excluded_pair_def)
  then have cuda: "(SparseCUDA, Bool) \<notin> set (declared_types_spec sts)"
    by (rule excluded_not_declared)
  from cpu cuda show ?thesis
    by (simp add: all_declared_types_refines length_declared_types_spec)
qed

theorem all_declared_types_enumeration_witness:
  "distinct scalar_types_with_complex_except_complex_half
   \<and> Bool \<in> set scalar_types_with_complex_except_complex_half
   \<and> length (all_declared_types scalar_types_with_complex_except_complex_half) = 46
   \<and> (SparseCPU, Bool) \<notin> set (all_declared_types scalar_types_with_complex_except_complex_half)"
  using all_declared_types_enumeration [of scalar_types_with_complex_except_complex_half]
  by (simp add: scalar_types_with_complex_except_complex_half_def declared_types_spec_def
      excluded_pair_def)

section \<open>The resolver\<close>

lemma emplace_map_add: "emplace m k v = [k \<mapsto> v] ++ m"
  by (auto simp add: emplace_def map_add_def fun_eq_iff split: option.splits)

lemma emplace_types_map:
  "snd (emplace_types fw ts m) = family_registry fw ts ++ m"
proof (induction ts arbitrary: m)
  case Nil
  show ?case by (simp add: family_registry_def)
next
  case (Cons t ts)
  show ?case
  proof (cases "type_to_string fw t")
    case (Inl e)
    then show ?thesis by (simp add: family_registry_def)
  next
    case (Inr name)
    have "snd (emplace_types fw (t # ts) m) = family_registry fw ts ++ ([name \<mapsto> t] ++ m)"
      using Inr Cons.IH [of "emplace m name t"] by (simp add: emplace_map_add)
    also have "\<dots> = family_registry fw (t # ts) ++ m"
      using Inr by (auto simp add: family_registry_def map_add_def fun_eq_iff split: option.splits)
    finally show ?thesis .
  qed
qed

lemma emplace_types_no_error:
  assumes "\<forall>t \<in> set ts. \<exists>n. type_to_string fw t = Inr n"
  shows "fst (emplace_types fw ts m) = None"
  using assms
proof (induction ts arbitrary: m)
  case Nil
  show ?case by simp
next
  case (Cons t ts)
  then obtain n where n: "type_to_string fw t = Inr n" by auto
  from Cons.prems have "\<forall>t \<in> set ts. \<exists>n. type_to_string fw t = Inr n" by simp
  then have "fst (emplace_types fw ts (emplace m n t)) = None" by (rule Cons.IH)
  with n show ?case by simp
qed

lemma supported_backend_string:
  assumes "b \<in> {CPU, CUDA, XPU, SparseCPU, SparseCUDA, SparseXPU, QuantizedCPU, HPU}"
  shows "\<exists>ns. backend_to_string fw b = Inr ns"
  using assms by auto

lemma type_to_string_supported:
  assumes "type_backend t \<in> {CPU, CUDA, XPU, SparseCPU, SparseCUDA, SparseXPU, QuantizedCPU, HPU}"
  shows "\<exists>n. type_to_string fw t = Inr n"
proof -
  from supported_backend_string [OF assms] obtain ns
    where "backend_to_string fw (type_backend t) = Inr ns" by blast
  then show ?thesis by (simp add: type_to_string_def)
qed

lemma backend_to_string_inj:
  "backend_to_string fw b1 = Inr ns \<Longrightarrow> backend_to_string fw b2 = Inr ns \<Longrightarrow> b1 = b2"
  by (cases b1; cases b2; auto)

lemma last_separator:
  assumes "d \<notin> set a" "d \<notin> set b" "xs @ d # a = ys @ d # b"
  shows "xs = ys \<and> a = b"
  using assms
proof (induction xs arbitrary: ys)
  case Nil
  then show ?case by (cases ys) auto
next
  case (Cons x xs)
  show ?case
  proof (cases ys)
    case Nil
    with Cons.prems show ?thesis by auto
  next
    case (Cons y ys')
    with Cons.prems Cons.IH [of ys'] show ?thesis by auto
  qed
qed

lemma type_to_string_inj:
  assumes dots: "\<forall>s. CHR ''.'' \<notin> set (toString fw s)" and inj: "inj (toString fw)"
    and n1: "type_to_string fw t1 = Inr n" and n2: "type_to_string fw t2 = Inr n"
  shows "t1 = t2"
proof -
  from n1 obtain ns1 where ns1: "backend_to_string fw (type_backend t1) = Inr ns1"
    and e1: "n = ns1 @ CHR ''.'' # (toString fw (scalarType t1) @ ''Tensor'')"
    by (auto simp add: type_to_string_def split: sum.splits)
  from n2 obtain ns2 where ns2: "backend_to_string fw (type_backend t2) = Inr ns2"
    and e2: "n = ns2 @ CHR ''.'' # (toString fw (scalarType t2) @ ''Tensor'')"
    by (auto simp add: type_to_string_def split: sum.splits)
  have d1: "CHR ''.'' \<notin> set (toString fw (scalarType t1) @ ''Tensor'')"
    using dots by simp
  have d2: "CHR ''.'' \<notin> set (toString fw (scalarType t2) @ ''Tensor'')"
    using dots by simp
  from e1 e2 have "ns1 @ CHR ''.'' # (toString fw (scalarType t1) @ ''Tensor'')
      = ns2 @ CHR ''.'' # (toString fw (scalarType t2) @ ''Tensor'')" by simp
  from last_separator [OF d1 d2 this]
  have ns: "ns1 = ns2" and nm: "toString fw (scalarType t1) = toString fw (scalarType t2)"
    by simp_all
  from nm inj have s: "scalarType t1 = scalarType t2" by (simp add: inj_eq)
  from ns ns1 ns2 have b: "type_backend t1 = type_backend t2"
    by (auto intro: backend_to_string_inj)
  from s b show ?thesis by simp
qed

lemma cuda_name_prefix:
  assumes "type_backend t \<in> {CUDA, SparseCUDA}" "type_to_string fw t = Inr n"
  shows "prefix cuda_prefix n \<and> n \<noteq> ''torch.Tensor''"
  using assms by (auto simp add: type_to_string_def cuda_prefix_def)

lemma no_dot_no_cuda:
  assumes "CHR ''.'' \<notin> set nm"
  shows "\<not> prefix ''cuda.'' (nm @ ''Tensor'')"
proof
  assume "prefix ''cuda.'' (nm @ ''Tensor'')"
  then have "set ''cuda.'' \<subseteq> set (nm @ ''Tensor'')" by (rule set_mono_prefix)
  with assms show False by simp
qed

lemma cpu_name_no_prefix:
  assumes nm: "toString fw (scalarType t) \<noteq> []" "CHR ''.'' \<notin> set (toString fw (scalarType t))"
    and b: "type_backend t \<in> {CPU, XPU, SparseCPU, SparseXPU, QuantizedCPU, HPU}"
    and n: "type_to_string fw t = Inr n"
  shows "\<not> prefix cuda_prefix n \<and> n \<noteq> ''torch.Tensor''"
  using b n nm no_dot_no_cuda [OF nm(2)]
  by (auto simp add: type_to_string_def cuda_prefix_def)

lemma registry_lookup:
  assumes dots: "\<forall>s. CHR ''.'' \<notin> set (toString fw s)" and inj: "inj (toString fw)"
    and ok: "\<forall>t \<in> set ts. \<exists>n. type_to_string fw t = Inr n"
    and t: "t \<in> set ts" and n: "type_to_string fw t = Inr n"
  shows "family_registry fw ts n = Some t"
  using ok t
proof (induction ts)
  case Nil
  then show ?case by simp
next
  case (Cons u us)
  from Cons.prems obtain m where m: "type_to_string fw u = Inr m" by auto
  show ?case
  proof (cases "m = n")
    case True
    with m n have "u = t" using type_to_string_inj [OF dots inj] by blast
    with m True show ?thesis by (simp add: family_registry_def)
  next
    case False
    with m n have "u \<noteq> t" by auto
    with Cons.prems have "t \<in> set us" and "\<forall>t \<in> set us. \<exists>n. type_to_string fw t = Inr n"
      by auto
    then have "family_registry fw us n = Some t" using Cons.IH by blast
    with m False show ?thesis by (simp add: family_registry_def)
  qed
qed

lemma registry_entry:
  assumes "family_registry fw ts n = Some t"
  shows "t \<in> set ts \<and> type_to_string fw t = Inr n"
  using assms
proof (induction ts)
  case Nil
  then show ?case by (simp add: family_registry_def)
next
  case (Cons u us)
  show ?case
  proof (cases "type_to_string fw u")
    case (Inl e)
    with Cons.prems show ?thesis by (simp add: family_registry_def)
  next
    case (Inr m)
    with Cons show ?thesis
      by (auto simp add: family_registry_def split: if_splits)
  qed
qed

lemma mismatch_first_prefix: "mismatch_first p s = [] \<longleftrightarrow> prefix p s"
  by (induction p s rule: mismatch_first.induct) auto

lemma wellformed_cpu_types:
  assumes "wellformed_framework fw" "t \<in> set (allCPUTypes fw)"
  shows "\<exists>n. type_to_string fw t = Inr n"
proof -
  from assms have "type_backend t \<in> {CPU, XPU, SparseCPU, SparseXPU, QuantizedCPU, HPU}"
    by (simp add: wellformed_framework_def)
  then have "type_backend t \<in> {CPU, CUDA, XPU, SparseCPU, SparseCUDA, SparseXPU, QuantizedCPU, HPU}"
    by auto
  then show ?thesis by (rule type_to_string_supported)
qed

lemma wellformed_cuda_types:
  assumes "wellformed_framework fw" "t \<in> set (allCUDATypes fw)"
  shows "\<exists>n. type_to_string fw t = Inr n"
proof -
  from assms have "type_backend t \<in> {CUDA, SparseCUDA}"
    by (simp add: wellformed_framework_def)
  then have "type_backend t \<in> {CPU, CUDA, XPU, SparseCPU, SparseCUDA, SparseXPU, QuantizedCPU, HPU}"
    by auto
  then show ?thesis by (rule type_to_string_supported)
qed

lemma emplace_types_wellformed:
  assumes "\<forall>t \<in> set ts. \<exists>n. type_to_string fw t = Inr n"
  shows "emplace_types fw ts m = (None, family_registry fw ts ++ m)"
  using emplace_types_no_error [OF assms, of m] emplace_types_map [of fw ts m]
  by (cases "emplace_types fw ts m") simp

lemma call_once_cpu_formats:
  assumes ok: "\<forall>t \<in> set (allCPUTypes fw). \<exists>n. type_to_string fw t = Inr n"
    and inv: "statics_inv fw st"
  shows "call_once_cpu fw st
         = (None, st\<lparr>cpu_once := True, cpu_map := family_registry fw (allCPUTypes fw)\<rparr>)"
proof (cases "cpu_once st")
  case True
  with inv have "cpu_map st = family_registry fw (allCPUTypes fw)"
    by (simp add: statics_inv_def)
  with True show ?thesis by (simp add: call_once_cpu_def)
next
  case False
  with inv have "cpu_map st = Map.empty" by (simp add: statics_inv_def)
  with ok False show ?thesis
    by (simp add: call_once_cpu_def emplace_types_wellformed)
qed

lemma call_once_cuda_formats:
  assumes ok: "\<forall>t \<in> set (allCUDATypes fw). \<exists>n. type_to_string fw t = Inr n"
    and inv: "statics_inv fw st"
  shows "call_once_cuda fw st
         = (None, st\<lparr>cuda_once := True, cuda_map := family_registry fw (allCUDATypes fw)\<rparr>)"
proof (cases "cuda_once st")
  case True
  with inv have "cuda_map st = family_registry fw (allCUDATypes fw)"
    by (simp add: statics_inv_def)
  with True show ?thesis by (simp add: call_once_cuda_def)
next
  case False
  with inv have "cuda_map st = Map.empty" by (simp add: statics_inv_def)
  with ok False show ?thesis
    by (simp add: call_once_cuda_def emplace_types_wellformed)
qed

lemma call_once_cpu_built:
  assumes wf: "wellformed_framework fw" and inv: "statics_inv fw st"
  shows "call_once_cpu fw st
         = (None, st\<lparr>cpu_once := True, cpu_map := family_registry fw (allCPUTypes fw)\<rparr>)"
proof -
  have "\<forall>t \<in> set (allCPUTypes fw). \<exists>n. type_to_string fw t = Inr n"
    using wellformed_cpu_types [OF wf] by blast
  then show ?thesis using inv by (rule call_once_cpu_formats)
qed

lemma call_once_cuda_built:
  assumes wf: "wellformed_framework fw" and inv: "statics_inv fw st"
  shows "call_once_cuda fw st
         = (None, st\<lparr>cuda_once := True, cuda_map := family_registry fw (allCUDATypes fw)\<rparr>)"
proof -
  have "\<forall>t \<in> set (allCUDATypes fw). \<exists>n. type_to_string fw t = Inr n"
    using wellformed_cuda_types [OF wf] by blast
  then show ?thesis using inv by (rule call_once_cuda_formats)
qed

lemma options_from_string_cuda:
  assumes "str \<noteq> ''torch.Tensor''" "prefix cuda_prefix str"
  shows "options_from_string fw cfg st str =
          (case call_once_cuda fw st of
             (Some e, st') \<Rightarrow> (Inl e, st')
           | (None, st') \<Rightarrow> (find_or_throw (cuda_map st') str, st'))"
  using assms
  by (simp add: options_from_string_def mismatch_first_prefix find_or_throw_def
      split: prod.splits option.splits)

lemma options_from_string_cpu:
  assumes "str \<noteq> ''torch.Tensor''" "\<not> prefix cuda_prefix str"
  shows "options_from_string fw cfg st str =
          (case call_once_cpu fw st of
             (Some e, st') \<Rightarrow> (Inl e, st')
           | (None, st') \<Rightarrow> (find_or_throw (cpu_map st') str, st'))"
  using assms
  by (simp add: options_from_string_def mismatch_first_prefix find_or_throw_def
      split: prod.splits option.splits)

lemma resolve_cuda_formats:
  assumes ok: "\<forall>t \<in> set (allCUDATypes fw). \<exists>n. type_to_string fw t = Inr n"
    and inv: "statics_inv fw st"
    and str: "str \<noteq> ''torch.Tensor''" "prefix cuda_prefix str"
  shows "options_from_string fw cfg st str =
          (find_or_throw (family_registry fw (allCUDATypes fw)) str,
           st\<lparr>cuda_once := True, cuda_map := family_registry fw (allCUDATypes fw)\<rparr>)"
  by (simp add: options_from_string_cuda [OF str] call_once_cuda_formats [OF ok inv])

lemma resolve_cpu_formats:
  assumes ok: "\<forall>t \<in> set (allCPUTypes fw). \<exists>n. type_to_string fw t = Inr n"
    and inv: "statics_inv fw st"
    and str: "str \<noteq> ''torch.Tensor''" "\<not> prefix cuda_prefix str"
  shows "options_from_string fw cfg st str =
          (find_or_throw (family_registry fw (allCPUTypes fw)) str,
           st\<lparr>cpu_once := True, cpu_map := family_registry fw (allCPUTypes fw)\<rparr>)"
  by (simp add: options_from_string_cpu [OF str] call_once_cpu_formats [OF ok inv])

lemma resolve_cuda:
  assumes wf: "wellformed_framework fw" and inv: "statics_inv fw st"
    and str: "str \<noteq> ''torch.Tensor''" "prefix cuda_prefix str"
  shows "options_from_string fw cfg st str =
          (find_or_throw (family_registry fw (allCUDATypes fw)) str,
           st\<lparr>cuda_once := True, cuda_map := family_registry fw (allCUDATypes fw)\<rparr>)"
  by (simp add: options_from_string_cuda [OF str] call_once_cuda_built [OF wf inv])

lemma resolve_cpu:
  assumes wf: "wellformed_framework fw" and inv: "statics_inv fw st"
    and str: "str \<noteq> ''torch.Tensor''" "\<not> prefix cuda_prefix str"
  shows "options_from_string fw cfg st str =
          (find_or_throw (family_registry fw (allCPUTypes fw)) str,
           st\<lparr>cpu_once := True, cpu_map := family_registry fw (allCPUTypes fw)\<rparr>)"
  by (simp add: options_from_string_cpu [OF str] call_once_cpu_built [OF wf inv])

lemma statics_inv_initial: "statics_inv fw initial_statics"
  by (simp add: statics_inv_def initial_statics_def)

lemma statics_inv_preserved:
  assumes wf: "wellformed_framework fw" and inv: "statics_inv fw st"
  shows "statics_inv fw (snd (options_from_string fw cfg st str))"
proof (cases "str = ''torch.Tensor''")
  case True
  with inv show ?thesis by (simp add: options_from_string_def)
next
  case False
  show ?thesis
  proof (cases "prefix cuda_prefix str")
    case True
    from inv show ?thesis
      by (simp add: resolve_cuda [OF wf inv False True] statics_inv_def)
  next
    case np: False
    from inv show ?thesis
      by (simp add: resolve_cpu [OF wf inv False np] statics_inv_def)
  qed
qed

lemma cpu_type_resolves:
  assumes wf: "wellformed_framework fw" and inv: "statics_inv fw st"
    and cpu: "t \<in> set (allCPUTypes fw)" and n: "type_to_string fw t = Inr n"
  shows "fst (options_from_string fw cfg st n) = Inr (options t)"
proof -
  from wf have dots: "\<forall>s. CHR ''.'' \<notin> set (toString fw s)" and inj: "inj (toString fw)"
    by (simp_all add: wellformed_framework_def)
  from wf cpu have b: "type_backend t \<in> {CPU, XPU, SparseCPU, SparseXPU, QuantizedCPU, HPU}"
    by (simp add: wellformed_framework_def)
  from wf have nm: "toString fw (scalarType t) \<noteq> []"
      "CHR ''.'' \<notin> set (toString fw (scalarType t))"
    by (simp_all add: wellformed_framework_def)
  from cpu_name_no_prefix [OF nm b n]
  have str: "n \<noteq> ''torch.Tensor''" "\<not> prefix cuda_prefix n" by simp_all
  have ok: "\<forall>t \<in> set (allCPUTypes fw). \<exists>n. type_to_string fw t = Inr n"
    using wellformed_cpu_types [OF wf] by blast
  have "family_registry fw (allCPUTypes fw) n = Some t"
    by (rule registry_lookup [OF dots inj ok cpu n])
  then show ?thesis
    by (simp add: resolve_cpu [OF wf inv str] find_or_throw_def)
qed

lemma cuda_type_resolves:
  assumes wf: "wellformed_framework fw" and inv: "statics_inv fw st"
    and cuda: "t \<in> set (allCUDATypes fw)" and n: "type_to_string fw t = Inr n"
  shows "fst (options_from_string fw cfg st n) = Inr (options t)"
proof -
  from wf have dots: "\<forall>s. CHR ''.'' \<notin> set (toString fw s)" and inj: "inj (toString fw)"
    by (simp_all add: wellformed_framework_def)
  from wf cuda have b: "type_backend t \<in> {CUDA, SparseCUDA}"
    by (simp add: wellformed_framework_def)
  from cuda_name_prefix [OF b n]
  have str: "n \<noteq> ''torch.Tensor''" "prefix cuda_prefix n" by simp_all
  have ok: "\<forall>t \<in> set (allCUDATypes fw). \<exists>n. type_to_string fw t = Inr n"
    using wellformed_cuda_types [OF wf] by blast
  have "family_registry fw (allCUDATypes fw) n = Some t"
    by (rule registry_lookup [OF dots inj ok cuda n])
  then show ?thesis
    by (simp add: resolve_cuda [OF wf inv str] find_or_throw_def)
qed

lemma call_once_cuda_keeps_cpu:
  "call_once_cuda fw st = (err, st') \<Longrightarrow> cpu_once st' = cpu_once st \<and> cpu_map st' = cpu_map st"
  by (auto simp add: call_once_cuda_def split: if_splits prod.splits option.splits)

lemma call_once_cpu_keeps_cuda:
  "call_once_cpu fw st = (err, st') \<Longrightarrow> cuda_once st' = cuda_once st \<and> cuda_map st' = cuda_map st"
  by (auto simp add: call_once_cpu_def split: if_splits prod.splits option.splits)

lemma statics_inv_kept:
  assumes cpu: "\<forall>t \<in> set (allCPUTypes fw). \<exists>n. type_to_string fw t = Inr n"
    and cuda: "\<forall>t \<in> set (allCUDATypes fw). \<exists>n. type_to_string fw t = Inr n"
    and inv: "statics_inv fw st"
  shows "statics_inv fw (snd (options_from_string fw cfg st str))"
proof (cases "str = ''torch.Tensor''")
  case True
  with inv show ?thesis by (simp add: options_from_string_def)
next
  case False
  show ?thesis
  proof (cases "prefix cuda_prefix str")
    case True
    from inv show ?thesis
      by (simp add: resolve_cuda_formats [OF cuda inv False True] statics_inv_def)
  next
    case np: False
    from inv show ?thesis
      by (simp add: resolve_cpu_formats [OF cpu inv False np] statics_inv_def)
  qed
qed

text \<open>
  A name that the registry of its family does not hold: the call fails with the
  invalid-type error, whose message quotes the C string of the name, and the statics
  change only in that the family is built when it was not.
\<close>

lemma unknown_name_fails:
  assumes cpu: "\<forall>t \<in> set (allCPUTypes fw). \<exists>n. type_to_string fw t = Inr n"
    and cuda: "\<forall>t \<in> set (allCUDATypes fw). \<exists>n. type_to_string fw t = Inr n"
    and inv: "statics_inv fw st"
    and str: "str \<noteq> ''torch.Tensor''"
    and absent: "family_registry fw (selected_types fw str) str = None"
  shows "fst (options_from_string fw cfg st str)
           = Inl (ValueError (invalid_type_message (c_str str)))
       \<and> ((if prefix cuda_prefix str then cuda_once st else cpu_once st)
            \<longrightarrow> snd (options_from_string fw cfg st str) = st)"
proof (cases "prefix cuda_prefix str")
  case True
  with absent have "family_registry fw (allCUDATypes fw) str = None"
    by (simp add: selected_types_def)
  moreover from inv have "cuda_once st \<longrightarrow>
      st\<lparr>cuda_once := True, cuda_map := family_registry fw (allCUDATypes fw)\<rparr> = st"
    by (simp add: statics_inv_def)
  ultimately show ?thesis
    using True by (simp add: resolve_cuda_formats [OF cuda inv str True] find_or_throw_def)
next
  case False
  with absent have "family_registry fw (allCPUTypes fw) str = None"
    by (simp add: selected_types_def)
  moreover from inv have "cpu_once st \<longrightarrow>
      st\<lparr>cpu_once := True, cpu_map := family_registry fw (allCPUTypes fw)\<rparr> = st"
    by (simp add: statics_inv_def)
  ultimately show ?thesis
    using False by (simp add: resolve_cpu_formats [OF cpu inv str False] find_or_throw_def)
qed

text \<open>
  No call changes what a later call returns: the registry that a lookup sees is the
  built one, whether an earlier call or the lookup itself has built it.
\<close>

lemma later_lookups_unchanged:
  assumes cpu: "\<forall>t \<in> set (allCPUTypes fw). \<exists>n. type_to_string fw t = Inr n"
    and cuda: "\<forall>t \<in> set (allCUDATypes fw). \<exists>n. type_to_string fw t = Inr n"
    and inv: "statics_inv fw st"
  shows "fst (options_from_string fw cfg' (snd (options_from_string fw cfg st str)) str')
       = fst (options_from_string fw cfg' st str')"
proof -
  let ?st = "snd (options_from_string fw cfg st str)"
  have inv': "statics_inv fw ?st"
    using cpu cuda inv by (rule statics_inv_kept)
  show ?thesis
  proof (cases "str' = ''torch.Tensor''")
    case True
    then show ?thesis by (simp add: options_from_string_def)
  next
    case False
    show ?thesis
    proof (cases "prefix cuda_prefix str'")
      case True
      show ?thesis
        by (simp add: resolve_cuda_formats [OF cuda inv False True]
            resolve_cuda_formats [OF cuda inv' False True])
    next
      case np: False
      show ?thesis
        by (simp add: resolve_cpu_formats [OF cpu inv False np]
            resolve_cpu_formats [OF cpu inv' False np])
    qed
  qed
qed

subsection \<open>The example framework\<close>

lemma scalar_type_name_wellformed:
  "scalar_type_name s \<noteq> [] \<and> CHR ''.'' \<notin> set (scalar_type_name s)"
  by (cases s) simp_all

lemma scalar_type_name_inj: "inj scalar_type_name"
proof (rule injI)
  fix x y
  assume "scalar_type_name x = scalar_type_name y"
  then show "x = y" by (cases x; cases y; simp)
qed

lemma example_framework_wellformed: "wellformed_framework example_framework"
  by (auto simp add: wellformed_framework_def scalar_type_name_wellformed scalar_type_name_inj
      allTypesForBackends_def getDeprecatedTypeProperties_def)

lemma example_cpu_registry_nul:
  "family_registry example_framework (allTypesForBackends [CPU, SparseCPU]) name_with_nul = None"
  by (simp add: family_registry_def allTypesForBackends_def all_scalar_types_def
      getDeprecatedTypeProperties_def type_to_string_def name_with_nul_def)

lemma c_str_name_with_nul: "c_str name_with_nul = ''torch.FloatTensor''"
  by (simp add: c_str_def name_with_nul_def)

lemma example_cpu_registry_xpu:
  "family_registry example_framework (allTypesForBackends [CPU, SparseCPU])
     ''torch.xpu.FloatTensor'' = None"
  by (simp add: family_registry_def allTypesForBackends_def all_scalar_types_def
      getDeprecatedTypeProperties_def type_to_string_def)

lemma example_cpu_registry_wat:
  "family_registry example_framework (allTypesForBackends [CPU, SparseCPU])
     ''torch.wat.Tensor'' = None"
  by (simp add: family_registry_def allTypesForBackends_def all_scalar_types_def
      getDeprecatedTypeProperties_def type_to_string_def)

lemma example_resolve_cpu:
  assumes "str \<noteq> ''torch.Tensor''" "\<not> prefix cuda_prefix str"
  shows "options_from_string example_framework cfg initial_statics str =
          (find_or_throw (family_registry example_framework (allCPUTypes example_framework)) str,
           initial_statics\<lparr>cpu_once := True,
             cpu_map := family_registry example_framework (allCPUTypes example_framework)\<rparr>)"
  using example_framework_wellformed statics_inv_initial assms by (rule resolve_cpu)

subsection \<open>The claims on the resolver\<close>

text \<open>
  C1: round trip. In a well-formed framework, for every type that the CPU or the CUDA
  enumerator lists and in every state of the statics that a run reaches, the formatter
  gives the type a name, and resolving that name returns the options of the type.
\<close>

theorem name_roundtrip:
  assumes wf: "wellformed_framework fw" and inv: "statics_inv fw st"
    and t: "t \<in> set (allCPUTypes fw) \<union> set (allCUDATypes fw)"
  shows "\<exists>name. type_to_string fw t = Inr name
           \<and> fst (options_from_string fw cfg st name) = Inr (options t)"
proof -
  from t consider (cpu) "t \<in> set (allCPUTypes fw)" | (cuda) "t \<in> set (allCUDATypes fw)"
    by blast
  then show ?thesis
  proof cases
    case cpu
    from wellformed_cpu_types [OF wf cpu] obtain n where n: "type_to_string fw t = Inr n" ..
    with cpu_type_resolves [OF wf inv cpu n] show ?thesis by blast
  next
    case cuda
    from wellformed_cuda_types [OF wf cuda] obtain n where n: "type_to_string fw t = Inr n" ..
    with cuda_type_resolves [OF wf inv cuda n] show ?thesis by blast
  qed
qed

theorem name_roundtrip_witness:
  "wellformed_framework example_framework
   \<and> statics_inv example_framework initial_statics
   \<and> getDeprecatedTypeProperties SparseCPU Long
        \<in> set (allCPUTypes example_framework) \<union> set (allCUDATypes example_framework)
   \<and> type_to_string example_framework (getDeprecatedTypeProperties SparseCPU Long)
        = Inr ''torch.sparse.LongTensor''
   \<and> fst (options_from_string example_framework example_config initial_statics
              ''torch.sparse.LongTensor'')
        = Inr \<lparr>backend = SparseCPU, dtype = TypeMeta Long\<rparr>"
proof -
  have mem: "getDeprecatedTypeProperties SparseCPU Long
        \<in> set (allCPUTypes example_framework) \<union> set (allCUDATypes example_framework)"
    by (simp add: allTypesForBackends_def all_scalar_types_def)
  have name: "type_to_string example_framework (getDeprecatedTypeProperties SparseCPU Long)
        = Inr ''torch.sparse.LongTensor''"
    by (simp add: type_to_string_def getDeprecatedTypeProperties_def)
  from name_roundtrip [OF example_framework_wellformed statics_inv_initial mem,
      of example_config]
  have "fst (options_from_string example_framework example_config initial_statics
              ''torch.sparse.LongTensor'')
        = Inr (options (getDeprecatedTypeProperties SparseCPU Long))"
    by (simp add: name)
  then show ?thesis
    using mem name example_framework_wellformed statics_inv_initial
    by (simp add: options_def getDeprecatedTypeProperties_def)
qed

text \<open>
  C3: a string that is not \<open>torch.Tensor\<close> and is not in the registry of its family
  makes the resolver fail with the invalid-type error, and the message is to contain the
  string verbatim. The code passes \<open>str.c_str()\<close> to the format \<open>%s\<close>, so for a
  string with a NUL character the message stops at the NUL: \<open>name_with_nul\<close>, the
  string \<open>torch.FloatTensor\<close>, NUL, \<open>junk\<close>, is in no registry, the call fails, and
  the message is \<open>invalid type: 'torch.FloatTensor'\<close>, without the NUL and what follows
  it.
\<close>

theorem invalid_type_message_truncated:
  "name_with_nul \<noteq> ''torch.Tensor''
   \<and> family_registry example_framework (allCPUTypes example_framework) name_with_nul = None
   \<and> fst (options_from_string example_framework example_config initial_statics name_with_nul)
       = Inl (ValueError (''invalid type: '' @ [CHR 0x27] @ ''torch.FloatTensor'' @ [CHR 0x27]))
   \<and> CHR 0x00 \<in> set name_with_nul
   \<and> CHR 0x00 \<notin> set (''invalid type: '' @ [CHR 0x27] @ ''torch.FloatTensor'' @ [CHR 0x27])"
proof -
  have str: "name_with_nul \<noteq> ''torch.Tensor''" "\<not> prefix cuda_prefix name_with_nul"
    by (simp_all add: name_with_nul_def cuda_prefix_def)
  have "options_from_string example_framework example_config initial_statics name_with_nul =
        (find_or_throw (family_registry example_framework (allCPUTypes example_framework))
           name_with_nul,
         initial_statics\<lparr>cpu_once := True,
           cpu_map := family_registry example_framework (allCPUTypes example_framework)\<rparr>)"
    using str by (rule example_resolve_cpu)
  then have "fst (options_from_string example_framework example_config initial_statics
             name_with_nul)
       = Inl (ValueError (''invalid type: '' @ [CHR 0x27] @ ''torch.FloatTensor'' @ [CHR 0x27]))"
    by (simp add: find_or_throw_def example_cpu_registry_nul invalid_type_message_def
        c_str_name_with_nul)
  moreover have "CHR 0x00 \<in> set name_with_nul"
    by (simp add: name_with_nul_def)
  ultimately show ?thesis
    using str by (simp add: example_cpu_registry_nul)
qed

text \<open>
  C5, as amended: resolving \<open>torch.Tensor\<close> returns the options of the type of the
  default configuration, the backend converted from the default dispatch key and the
  default scalar type as they are at the call, and leaves the statics alone; this holds
  for every framework, configuration and state. The result equals that of resolving
  the formatted name of the default pair when the default type is one that the CPU or
  the CUDA enumerator of a well-formed framework lists.
\<close>

theorem default_sentinel:
  "options_from_string fw cfg st ''torch.Tensor''
     = (Inr (options (getDeprecatedTypeProperties
           (dispatchKeyToBackend fw (default_dispatch_key cfg)) (default_scalar_type cfg))), st)
   \<and> (wellformed_framework fw \<and> statics_inv fw st
        \<and> getDeprecatedTypeProperties (dispatchKeyToBackend fw (default_dispatch_key cfg))
             (default_scalar_type cfg) \<in> set (allCPUTypes fw) \<union> set (allCUDATypes fw)
      \<longrightarrow> (\<exists>name. type_to_string fw (getDeprecatedTypeProperties
                 (dispatchKeyToBackend fw (default_dispatch_key cfg)) (default_scalar_type cfg))
               = Inr name
             \<and> fst (options_from_string fw cfg st name)
               = fst (options_from_string fw cfg st ''torch.Tensor'')))"
proof -
  let ?t = "getDeprecatedTypeProperties (dispatchKeyToBackend fw (default_dispatch_key cfg))
              (default_scalar_type cfg)"
  have sentinel: "options_from_string fw cfg st ''torch.Tensor'' = (Inr (options ?t), st)"
    by (simp add: options_from_string_def)
  have "\<exists>name. type_to_string fw ?t = Inr name
          \<and> fst (options_from_string fw cfg st name) = Inr (options ?t)"
    if wf: "wellformed_framework fw" and inv: "statics_inv fw st"
      and t: "?t \<in> set (allCPUTypes fw) \<union> set (allCUDATypes fw)"
  proof (cases "?t \<in> set (allCPUTypes fw)")
    case True
    from wellformed_cpu_types [OF wf True] obtain n where n: "type_to_string fw ?t = Inr n" ..
    with cpu_type_resolves [OF wf inv True n] show ?thesis by blast
  next
    case False
    with t have cuda: "?t \<in> set (allCUDATypes fw)" by simp
    from wellformed_cuda_types [OF wf cuda] obtain n where n: "type_to_string fw ?t = Inr n" ..
    with cuda_type_resolves [OF wf inv cuda n] show ?thesis by blast
  qed
  with sentinel show ?thesis by simp
qed

theorem default_sentinel_witness:
  "wellformed_framework example_framework
   \<and> statics_inv example_framework initial_statics
   \<and> getDeprecatedTypeProperties
        (dispatchKeyToBackend example_framework (default_dispatch_key example_config))
        (default_scalar_type example_config)
        \<in> set (allCPUTypes example_framework) \<union> set (allCUDATypes example_framework)
   \<and> options_from_string example_framework example_config initial_statics ''torch.Tensor''
        = (Inr \<lparr>backend = CPU, dtype = TypeMeta Float\<rparr>, initial_statics)
   \<and> fst (options_from_string example_framework example_config initial_statics
              ''torch.FloatTensor'')
        = fst (options_from_string example_framework example_config initial_statics
              ''torch.Tensor'')"
proof -
  let ?t = "getDeprecatedTypeProperties
        (dispatchKeyToBackend example_framework (default_dispatch_key example_config))
        (default_scalar_type example_config)"
  have mem: "?t \<in> set (allCPUTypes example_framework) \<union> set (allCUDATypes example_framework)"
    by (simp add: example_config_def allTypesForBackends_def all_scalar_types_def)
  have name: "type_to_string example_framework ?t = Inr ''torch.FloatTensor''"
    by (simp add: example_config_def type_to_string_def getDeprecatedTypeProperties_def)
  from default_sentinel [of example_framework example_config initial_statics]
  have sentinel:
    "options_from_string example_framework example_config initial_statics ''torch.Tensor''
       = (Inr (options ?t), initial_statics)"
    by (rule conjunct1)
  from default_sentinel [of example_framework example_config initial_statics]
  have "wellformed_framework example_framework
      \<and> statics_inv example_framework initial_statics
      \<and> ?t \<in> set (allCPUTypes example_framework) \<union> set (allCUDATypes example_framework)
      \<longrightarrow> (\<exists>name. type_to_string example_framework ?t = Inr name
             \<and> fst (options_from_string example_framework example_config initial_statics name)
               = fst (options_from_string example_framework example_config initial_statics
                   ''torch.Tensor''))"
    by (rule conjunct2)
  with example_framework_wellformed statics_inv_initial mem
  obtain n where n: "type_to_string example_framework ?t = Inr n"
    and eq: "fst (options_from_string example_framework example_config initial_statics n)
               = fst (options_from_string example_framework example_config initial_statics
                   ''torch.Tensor'')"
    by blast
  from n name have "n = ''torch.FloatTensor''" by simp
  with eq have same: "fst (options_from_string example_framework example_config initial_statics
              ''torch.FloatTensor'')
        = fst (options_from_string example_framework example_config initial_statics
              ''torch.Tensor'')" by simp
  have "options ?t = \<lparr>backend = CPU, dtype = TypeMeta Float\<rparr>"
    by (simp add: example_config_def options_def getDeprecatedTypeProperties_def)
  with sentinel have "options_from_string example_framework example_config initial_statics
        ''torch.Tensor'' = (Inr \<lparr>backend = CPU, dtype = TypeMeta Float\<rparr>, initial_statics)"
    by simp
  with same mem example_framework_wellformed statics_inv_initial show ?thesis
    by (simp only: simp_thms)
qed

text \<open>
  C5 as stated fails for a default that no enumerator lists: with the default dispatch
  key of XPU and the default scalar type Float, \<open>torch.Tensor\<close> resolves to the options
  of (XPU, Float), while the formatted name of that pair, \<open>torch.xpu.FloatTensor\<close>,
  is looked up in the CPU registry and raises the invalid-type error.
\<close>

theorem default_xpu_name_unresolved:
  "options_from_string example_framework
       \<lparr>default_dispatch_key = DispatchKey 2, default_scalar_type = Float\<rparr>
       initial_statics ''torch.Tensor''
     = (Inr \<lparr>backend = XPU, dtype = TypeMeta Float\<rparr>, initial_statics)
   \<and> type_to_string example_framework
         (getDeprecatedTypeProperties (dispatchKeyToBackend example_framework (DispatchKey 2)) Float)
     = Inr ''torch.xpu.FloatTensor''
   \<and> fst (options_from_string example_framework
         \<lparr>default_dispatch_key = DispatchKey 2, default_scalar_type = Float\<rparr>
         initial_statics ''torch.xpu.FloatTensor'')
     = Inl (ValueError (''invalid type: '' @ [CHR 0x27] @ ''torch.xpu.FloatTensor'' @ [CHR 0x27]))"
proof -
  have sentinel: "options_from_string example_framework
       \<lparr>default_dispatch_key = DispatchKey 2, default_scalar_type = Float\<rparr>
       initial_statics ''torch.Tensor''
     = (Inr \<lparr>backend = XPU, dtype = TypeMeta Float\<rparr>, initial_statics)"
    by (simp add: options_from_string_def options_def getDeprecatedTypeProperties_def)
  have name: "type_to_string example_framework
         (getDeprecatedTypeProperties (dispatchKeyToBackend example_framework (DispatchKey 2)) Float)
     = Inr ''torch.xpu.FloatTensor''"
    by (simp add: type_to_string_def getDeprecatedTypeProperties_def)
  have "options_from_string example_framework
          \<lparr>default_dispatch_key = DispatchKey 2, default_scalar_type = Float\<rparr>
          initial_statics ''torch.xpu.FloatTensor'' =
        (find_or_throw (family_registry example_framework (allCPUTypes example_framework))
           ''torch.xpu.FloatTensor'',
         initial_statics\<lparr>cpu_once := True,
           cpu_map := family_registry example_framework (allCPUTypes example_framework)\<rparr>)"
    by (rule example_resolve_cpu) (simp_all add: cuda_prefix_def)
  then have "fst (options_from_string example_framework
         \<lparr>default_dispatch_key = DispatchKey 2, default_scalar_type = Float\<rparr>
         initial_statics ''torch.xpu.FloatTensor'')
     = Inl (ValueError (''invalid type: '' @ [CHR 0x27] @ ''torch.xpu.FloatTensor'' @ [CHR 0x27]))"
    by (simp add: find_or_throw_def example_cpu_registry_xpu invalid_type_message_def c_str_def)
  with sentinel name show ?thesis by simp
qed

text \<open>
  C6: for every string other than \<open>torch.Tensor\<close>, the resolver works on the CUDA
  family exactly when the string starts with \<open>torch.cuda.\<close> and on the CPU family
  otherwise, whatever namespace the string names: it builds the registry of that family
  on first use, leaves the flag and the map of the other family as they are, and looks
  the string up; a string that is not there fails with the invalid-type error, the only
  error of the lookup.
\<close>

theorem family_selection:
  assumes "str \<noteq> ''torch.Tensor''"
  shows "options_from_string fw cfg st str =
          resolve_in_family fw
            (if prefix ''torch.cuda.'' str then CUDA_family else CPU_family) st str
       \<and> (prefix ''torch.cuda.'' str \<longrightarrow>
            cpu_once (snd (options_from_string fw cfg st str)) = cpu_once st
            \<and> cpu_map (snd (options_from_string fw cfg st str)) = cpu_map st)
       \<and> (\<not> prefix ''torch.cuda.'' str \<longrightarrow>
            cuda_once (snd (options_from_string fw cfg st str)) = cuda_once st
            \<and> cuda_map (snd (options_from_string fw cfg st str)) = cuda_map st)"
proof (cases "prefix cuda_prefix str")
  case True
  obtain err st' where c: "call_once_cuda fw st = (err, st')" by (cases "call_once_cuda fw st")
  from call_once_cuda_keeps_cpu [OF c]
  have "cpu_once (snd (options_from_string fw cfg st str)) = cpu_once st
      \<and> cpu_map (snd (options_from_string fw cfg st str)) = cpu_map st"
    by (simp add: options_from_string_cuda [OF assms True] c split: option.splits)
  with True show ?thesis
    using options_from_string_cuda [OF assms True, of fw cfg st]
    by (simp add: resolve_in_family_def cuda_prefix_def)
next
  case False
  obtain err st' where c: "call_once_cpu fw st = (err, st')" by (cases "call_once_cpu fw st")
  from call_once_cpu_keeps_cuda [OF c]
  have "cuda_once (snd (options_from_string fw cfg st str)) = cuda_once st
      \<and> cuda_map (snd (options_from_string fw cfg st str)) = cuda_map st"
    by (simp add: options_from_string_cpu [OF assms False] c split: option.splits)
  with False show ?thesis
    using options_from_string_cpu [OF assms False, of fw cfg st]
    by (simp add: resolve_in_family_def cuda_prefix_def)
qed

theorem family_selection_witness:
  "''torch.wat.Tensor'' \<noteq> ''torch.Tensor''
   \<and> \<not> prefix ''torch.cuda.'' ''torch.wat.Tensor''
   \<and> options_from_string example_framework example_config initial_statics ''torch.wat.Tensor''
       = resolve_in_family example_framework CPU_family initial_statics ''torch.wat.Tensor''
   \<and> fst (options_from_string example_framework example_config initial_statics
             ''torch.wat.Tensor'')
       = Inl (ValueError (''invalid type: '' @ [CHR 0x27] @ ''torch.wat.Tensor'' @ [CHR 0x27]))"
proof -
  have "options_from_string example_framework example_config initial_statics
          ''torch.wat.Tensor'' =
        (find_or_throw (family_registry example_framework (allCPUTypes example_framework))
           ''torch.wat.Tensor'',
         initial_statics\<lparr>cpu_once := True,
           cpu_map := family_registry example_framework (allCPUTypes example_framework)\<rparr>)"
    by (rule example_resolve_cpu) (simp_all add: cuda_prefix_def)
  then have "fst (options_from_string example_framework example_config initial_statics
             ''torch.wat.Tensor'')
       = Inl (ValueError (''invalid type: '' @ [CHR 0x27] @ ''torch.wat.Tensor'' @ [CHR 0x27]))"
    by (simp add: find_or_throw_def example_cpu_registry_wat invalid_type_message_def c_str_def)
  then show ?thesis
    using family_selection [of "''torch.wat.Tensor''" example_framework example_config
        initial_statics]
    by simp
qed

text \<open>
  C10: for every string other than \<open>torch.Tensor\<close>, the result of the resolver, the
  options or the error, and the statics it leaves do not depend on the default
  configuration: two calls that differ in the configuration alone give the same
  outcome.
\<close>

theorem default_config_noninterference:
  assumes "str \<noteq> ''torch.Tensor''"
  shows "options_from_string fw cfg1 st str = options_from_string fw cfg2 st str"
  unfolding options_from_string_def using assms by (simp only: if_False)

theorem default_config_noninterference_witness:
  "''torch.FloatTensor'' \<noteq> ''torch.Tensor''
   \<and> options_from_string example_framework
         \<lparr>default_dispatch_key = DispatchKey 0, default_scalar_type = Float\<rparr>
         initial_statics ''torch.FloatTensor''
     = options_from_string example_framework
         \<lparr>default_dispatch_key = DispatchKey 1, default_scalar_type = Double\<rparr>
         initial_statics ''torch.FloatTensor''"
  using default_config_noninterference [of "''torch.FloatTensor''" example_framework
      "\<lparr>default_dispatch_key = DispatchKey 0, default_scalar_type = Float\<rparr>" initial_statics
      "\<lparr>default_dispatch_key = DispatchKey 1, default_scalar_type = Double\<rparr>"]
  by simp

end
